theory Spec2Isabelle
  imports Main
begin

section \<open>Python string primitives used by the ZPA provisioning scripts\<close>

text \<open>
  Both scripts (\<^verbatim>\<open>src/zpa/import_segments.py\<close> and \<^verbatim>\<open>src/zpa/segment_maker.py\<close>)
  work on Python \<^verbatim>\<open>str\<close> values with \<^verbatim>\<open>strip()\<close>, \<^verbatim>\<open>split(",")\<close> and
  \<^verbatim>\<open>lower()\<close>. A Python string is modelled as a \<^typ>\<open>string\<close> whose characters are the
  code points below 256; on that range the three primitives below are what CPython computes.
\<close>

definition py_whitespace :: "char list" where
  \<comment> \<open>the code points below 256 for which \<^verbatim>\<open>str.isspace\<close> holds:
      TAB, LF, VT, FF, CR, FS, GS, RS, US, SPACE, NEL, NBSP\<close>
  "py_whitespace =
     [CHR 0x09, CHR 0x0A, CHR 0x0B, CHR 0x0C, CHR 0x0D, CHR 0x1C, CHR 0x1D, CHR 0x1E,
      CHR 0x1F, CHR 0x20, CHR 0x85, CHR 0xA0]"

definition py_isspace :: "char \<Rightarrow> bool" where
  "py_isspace c = (c \<in> set py_whitespace)"

definition strip :: "string \<Rightarrow> string" where
  \<comment> \<open>\<^verbatim>\<open>s.strip()\<close>: leading and trailing whitespace removed\<close>
  "strip s = rev (dropWhile py_isspace (rev (dropWhile py_isspace s)))"

fun split :: "char \<Rightarrow> string \<Rightarrow> string list" where
  \<comment> \<open>\<^verbatim>\<open>s.split(sep)\<close> for a one-character separator: empty tokens are kept and
      \<^verbatim>\<open>"".split(",") == [""]\<close>\<close>
  "split sep [] = [[]]"
| "split sep (c # cs) =
     (if c = sep then [] # split sep cs
      else (case split sep cs of
              [] \<Rightarrow> [[c]]
            | t # ts \<Rightarrow> (c # t) # ts))"

fun join :: "string \<Rightarrow> string list \<Rightarrow> string" where
  \<comment> \<open>\<^verbatim>\<open>sep.join(xs)\<close>\<close>
  "join sep [] = []"
| "join sep [x] = x"
| "join sep (x # y # ys) = x @ sep @ join sep (y # ys)"

definition py_lower_char :: "char \<Rightarrow> char" where
  \<comment> \<open>\<^verbatim>\<open>str.lower\<close> on one code point below 256: A-Z and the Latin-1 capitals
      (0xC0-0xDE except the multiplication sign 0xD7) move up by 32\<close>
  "py_lower_char c =
     (let n = of_char c :: nat in
      if (65 \<le> n \<and> n \<le> 90) \<or> (192 \<le> n \<and> n \<le> 222 \<and> n \<noteq> 215)
      then char_of (n + 32) else c)"

definition lower :: "string \<Rightarrow> string" where
  "lower s = map py_lower_char s"

definition str2bool :: "string \<Rightarrow> bool" where
  \<comment> \<open>\<^verbatim>\<open>str(value).lower() in ("1", "true", "yes", "y")\<close>, the same in both scripts\<close>
  "str2bool v = (lower v \<in> set [''1'', ''true'', ''yes'', ''y''])"

section \<open>Port parsing\<close>

record port_range =
  pr_from :: string
  pr_to :: string

definition parse_ports_import :: "string \<Rightarrow> string list" where
  \<comment> \<open>\<^verbatim>\<open>import_segments.parse_ports\<close>; \<^verbatim>\<open>(port_string or "")\<close> is the string itself\<close>
  "parse_ports_import port_string =
     (let ports = split CHR '','' (strip port_string)
      in map strip (filter (\<lambda>p. strip p \<noteq> []) ports))"

definition parse_ports_maker :: "string \<Rightarrow> port_range list" where
  \<comment> \<open>\<^verbatim>\<open>segment_maker.parse_ports\<close>\<close>
  "parse_ports_maker port_string =
     (let ports = split CHR '','' (strip port_string)
      in map (\<lambda>p. \<lparr>pr_from = strip p, pr_to = strip p\<rparr>) (filter (\<lambda>p. strip p \<noteq> []) ports))"

definition port_ranges :: "string list \<Rightarrow> port_range list" where
  \<comment> \<open>\<^verbatim>\<open>[{"from": p, "to": p} for p in row['tcp_ports']]\<close> of the import script's payload\<close>
  "port_ranges ps = map (\<lambda>p. \<lparr>pr_from = p, pr_to = p\<rparr>) ps"

section \<open>Data model\<close>

type_synonym err = string
  \<comment> \<open>an error object returned by the SDK; only its presence is tested (\<^verbatim>\<open>if err:\<close>)\<close>

type_synonym raw_record = "string \<rightharpoonup> string"
  \<comment> \<open>one \<^verbatim>\<open>csv.DictReader\<close> row: column name to string value\<close>

type_synonym refmap = "(string \<times> string) list"
  \<comment> \<open>a name-to-identifier \<^verbatim>\<open>dict\<close>, in insertion order, keys distinct\<close>

datatype py_error = KeyError string | IndexError

definition row_get :: "raw_record \<Rightarrow> string \<Rightarrow> string \<Rightarrow> string" where
  \<comment> \<open>\<^verbatim>\<open>row.get(key, default)\<close>\<close>
  "row_get row k d = (case row k of None \<Rightarrow> d | Some v \<Rightarrow> v)"

definition truthy :: "string option \<Rightarrow> bool" where
  \<comment> \<open>truth value of \<^verbatim>\<open>row.get(key)\<close>: \<^verbatim>\<open>None\<close> and \<^verbatim>\<open>""\<close> are false\<close>
  "truthy v = (case v of None \<Rightarrow> False | Some x \<Rightarrow> x \<noteq> [])"

definition dict_index :: "refmap \<Rightarrow> string \<Rightarrow> py_error + string" where
  \<comment> \<open>\<^verbatim>\<open>d[key]\<close>, which raises \<^verbatim>\<open>KeyError\<close> on a missing key\<close>
  "dict_index d k = (case map_of d k of None \<Rightarrow> Inl (KeyError k) | Some v \<Rightarrow> Inr v)"

fun dict_index_all :: "refmap \<Rightarrow> string list \<Rightarrow> py_error + string list" where
  \<comment> \<open>\<^verbatim>\<open>[d[k] for k in ks]\<close>\<close>
  "dict_index_all d [] = Inr []"
| "dict_index_all d (k # ks) =
     (case dict_index d k of
        Inl e \<Rightarrow> Inl e
      | Inr v \<Rightarrow> (case dict_index_all d ks of Inl e \<Rightarrow> Inl e | Inr vs \<Rightarrow> Inr (v # vs)))"

definition first_key :: "refmap \<Rightarrow> string" where
  \<comment> \<open>\<^verbatim>\<open>list(d.keys())[0] if d else "Unknown"\<close>\<close>
  "first_key d = (case d of [] \<Rightarrow> ''Unknown'' | (k, _) # _ \<Rightarrow> k)"

record import_row =
  row_name :: string
  row_description :: string
  row_enabled :: bool
  row_segment_group_name :: string
  row_server_group_names :: "string list"
  row_domain_names :: "string list"
  row_tcp_ports :: "string list"
  row_udp_ports :: "string list"
  row_double_encrypt :: bool
  row_is_browser_access :: bool
  row_is_pra :: bool
  row_is_inspection :: bool

record segment_payload =
  pl_name :: string
  pl_description :: string
  pl_enabled :: bool
  pl_segment_group_id :: "string option"
  pl_server_group_ids :: "string list"
  pl_domain_names :: "string list"
  pl_tcp_port_range :: "port_range list"
  pl_udp_port_range :: "port_range list"
  pl_double_encrypt :: bool
  pl_app_protection_enabled :: "bool option"

record child_payload =
  cp_segment_id :: string
  cp_name :: string
  cp_domain :: string
  cp_application_port :: string
  cp_application_protocol :: string
  cp_enabled :: bool

record segment =
  seg_id :: string
  seg_name :: string
  seg_domain_names :: "string list"
  seg_tcp_port_range :: "port_range list"

record ref_group =
  grp_name :: string
  grp_id :: string

section \<open>Row parsing\<close>

definition parse_csv_row_import :: "raw_record \<Rightarrow> import_row option" where
  \<comment> \<open>\<^verbatim>\<open>import_segments.parse_csv_row\<close>\<close>
  "parse_csv_row_import row =
     (if \<not> (truthy (row ''NAME'') \<and> truthy (row ''DOMAINS'') \<and> truthy (row ''SERVER_GROUP_IDS''))
      then None
      else Some
        \<lparr>row_name = strip (row_get row ''NAME'' ''''),
         row_description = strip (row_get row ''DESCRIPTION'' ''''),
         row_enabled = str2bool (row_get row ''ENABLED'' ''true''),
         row_segment_group_name = strip (row_get row ''SEGMENT_GROUP_ID'' ''''),
         row_server_group_names = map strip (split CHR '','' (row_get row ''SERVER_GROUP_IDS'' '''')),
         row_domain_names = map strip (split CHR '','' (row_get row ''DOMAINS'' '''')),
         row_tcp_ports = parse_ports_import (row_get row ''TCP_PORTS'' ''''),
         row_udp_ports = parse_ports_import (row_get row ''UDP_PORTS'' ''''),
         row_double_encrypt = str2bool (row_get row ''DOUBLE_ENCRYPT'' ''false''),
         row_is_browser_access = str2bool (row_get row ''IS_BROWSER_ACCESS'' ''false''),
         row_is_pra = str2bool (row_get row ''IS_PRA'' ''false''),
         row_is_inspection = str2bool (row_get row ''IS_INSPECTION'' ''false'')\<rparr>)"

datatype row_error =
    Name_required
  | Segment_group_invalid string
  | Domains_required
  | Server_group_invalid string string
  | Server_groups_missing

fun resolve_server_groups :: "refmap \<Rightarrow> string list \<Rightarrow> row_error list \<times> string list" where
  \<comment> \<open>the loop of \<^verbatim>\<open>segment_maker.parse_csv_row\<close> over \<^verbatim>\<open>server_group_names\<close>:
      the errors it appends and the identifiers it collects\<close>
  "resolve_server_groups server_groups [] = ([], [])"
| "resolve_server_groups server_groups (sg_name # rest) =
     (let (errs, ids) = resolve_server_groups server_groups rest in
      case map_of server_groups sg_name of
        None \<Rightarrow> (Server_group_invalid sg_name (first_key server_groups) # errs, ids)
      | Some i \<Rightarrow> (errs, i # ids))"

definition parse_csv_row_maker ::
  "raw_record \<Rightarrow> refmap \<Rightarrow> refmap \<Rightarrow> row_error list + segment_payload" where
  \<comment> \<open>\<^verbatim>\<open>segment_maker.parse_csv_row\<close>; \<^verbatim>\<open>Inl errors\<close> is the printed report and
      the \<^verbatim>\<open>None\<close> it returns\<close>
  "parse_csv_row_maker row server_groups segment_groups =
     (let name = strip (row_get row ''NAME'' '''');
          segment_group_name = strip (row_get row ''SEGMENT_GROUP_ID'' '''');
          server_group_names =
            filter (\<lambda>n. n \<noteq> []) (map strip (split CHR '','' (row_get row ''SERVER_GROUP_IDS'' '''')));
          domain_names =
            filter (\<lambda>d. d \<noteq> []) (map strip (split CHR '','' (row_get row ''DOMAINS'' '''')));
          (sg_errors, server_group_ids) = resolve_server_groups server_groups server_group_names;
          errors =
            (if name = [] then [Name_required] else []) @
            (if segment_group_name = [] \<or> map_of segment_groups segment_group_name = None
             then [Segment_group_invalid (first_key segment_groups)] else []) @
            (if domain_names = [] then [Domains_required] else []) @
            sg_errors @
            (if server_group_ids = [] then [Server_groups_missing] else [])
      in if errors \<noteq> [] then Inl errors
         else Inr
           \<lparr>pl_name = name,
            pl_description = strip (row_get row ''DESCRIPTION'' ''''),
            pl_enabled = str2bool (row_get row ''ENABLED'' ''true''),
            pl_segment_group_id = map_of segment_groups segment_group_name,
            pl_server_group_ids = server_group_ids,
            pl_domain_names = domain_names,
            pl_tcp_port_range = parse_ports_maker (row_get row ''TCP_PORTS'' ''''),
            pl_udp_port_range = parse_ports_maker (row_get row ''UDP_PORTS'' ''''),
            pl_double_encrypt = str2bool (row_get row ''DOUBLE_ENCRYPT'' ''false''),
            pl_app_protection_enabled = None\<rparr>)"


section \<open>The collaborator, the run state and the trace\<close>

text \<open>
  The SDK client is an external collaborator. It is modelled as a record of operations over
  an arbitrary tenant state \<open>'w\<close>: each operation returns its result together with the new
  tenant state. A create or list call answers \<open>Inl err\<close> when the SDK's error slot is set.
\<close>

record 'w client =
  server_groups_list_groups :: "'w \<Rightarrow> (err + ref_group list) \<times> 'w"
  segment_groups_list_groups :: "'w \<Rightarrow> (err + ref_group list) \<times> 'w"
  list_segments :: "'w \<Rightarrow> (err + segment list) \<times> 'w"
  add_segment :: "segment_payload \<Rightarrow> 'w \<Rightarrow> (err + string) \<times> 'w"
  ba_add_segment :: "child_payload \<Rightarrow> 'w \<Rightarrow> err option \<times> 'w"
  pra_add_segment :: "child_payload \<Rightarrow> 'w \<Rightarrow> err option \<times> 'w"

text \<open>
  What a run does that can be observed: the lines it prints and the calls it makes on the
  collaborator, in order. Each printed line of the two scripts has its own constructor.
\<close>

datatype event =
    Skip_existing string
  | Skip_missing_server_groups string "string list"
  | Skip_missing_segment_group string string
  | Creating_parent string
  | Call_add_segment segment_payload
  | Parent_failed string err
  | Parent_created string string
  | Configuring_ba
  | Adding_ba string
  | Call_ba_add_segment child_payload
  | Ba_failed string err
  | Configuring_pra
  | Adding_pra string
  | Call_pra_add_segment child_payload
  | Pra_failed string err
  | Call_list_segments
  | List_segments_warning err
  | Skip_existing_attributes string "port_range list"
  | Maker_failed string err
  | Maker_created string

record 'w run_state =
  world :: 'w
  created_count :: nat
  configured_apps :: nat
  trace :: "event list"

definition emit :: "event \<Rightarrow> 'w run_state \<Rightarrow> 'w run_state" where
  "emit e s = s\<lparr>trace := trace s @ [e]\<rparr>"

fun for_each :: "('a \<Rightarrow> 's \<Rightarrow> py_error + 's) \<Rightarrow> 'a list \<Rightarrow> 's \<Rightarrow> py_error + 's" where
  \<comment> \<open>a \<^verbatim>\<open>for\<close> loop whose body may raise: the exception leaves the loop\<close>
  "for_each body [] s = Inr s"
| "for_each body (x # xs) s =
     (case body x s of Inl e \<Rightarrow> Inl e | Inr s' \<Rightarrow> for_each body xs s')"

section \<open>The import script: parent segment, then child applications\<close>

definition add_ba_app :: "'w client \<Rightarrow> string \<Rightarrow> string \<Rightarrow> string \<Rightarrow> 'w run_state \<Rightarrow> 'w run_state" where
  \<comment> \<open>body of the browser-access loop, \<^verbatim>\<open>import_segments.py\<close> lines 110-115\<close>
  "add_ba_app client parent_id domain port s =
     (let protocol = (if port \<in> set [''443'', ''8443''] then ''HTTPS'' else ''HTTP'');
          ba_name = domain @ '':'' @ port;
          s1 = emit (Adding_ba ba_name) s;
          payload = \<lparr>cp_segment_id = parent_id, cp_name = ba_name, cp_domain = domain,
                     cp_application_port = port, cp_application_protocol = protocol,
                     cp_enabled = True\<rparr>;
          (ba_err, w') = ba_add_segment client payload (world s1);
          s2 = (emit (Call_ba_add_segment payload) s1)\<lparr>world := w'\<rparr>
      in case ba_err of
           Some e \<Rightarrow> emit (Ba_failed ba_name e) s2
         | None \<Rightarrow> s2\<lparr>configured_apps := configured_apps s2 + 1\<rparr>)"

definition add_pra_app :: "'w client \<Rightarrow> string \<Rightarrow> string \<Rightarrow> string \<Rightarrow> 'w run_state \<Rightarrow> 'w run_state" where
  \<comment> \<open>body of the privileged-remote-access loop, lines 122-128\<close>
  "add_pra_app client parent_id domain port s =
     (let protocol = (if port = ''22'' then Some ''SSH''
                      else if port = ''3389'' then Some ''RDP'' else None)
      in case protocol of
           None \<Rightarrow> s
         | Some proto \<Rightarrow>
             (let pra_name = proto @ ''-'' @ domain @ '':'' @ port;
                  s1 = emit (Adding_pra pra_name) s;
                  payload = \<lparr>cp_segment_id = parent_id, cp_name = pra_name, cp_domain = domain,
                             cp_application_port = port, cp_application_protocol = proto,
                             cp_enabled = True\<rparr>;
                  (pra_err, w') = pra_add_segment client payload (world s1);
                  s2 = (emit (Call_pra_add_segment payload) s1)\<lparr>world := w'\<rparr>
              in case pra_err of
                   Some e \<Rightarrow> emit (Pra_failed pra_name e) s2
                 | None \<Rightarrow> s2\<lparr>configured_apps := configured_apps s2 + 1\<rparr>))"

definition configure_ba :: "'w client \<Rightarrow> string \<Rightarrow> import_row \<Rightarrow> 'w run_state \<Rightarrow> 'w run_state" where
  \<comment> \<open>lines 106-115: \<^verbatim>\<open>for domain in row['domain_names']: for port in row['tcp_ports']\<close>\<close>
  "configure_ba client parent_id row s =
     (if row_is_browser_access row
      then fold (\<lambda>domain. fold (\<lambda>port. add_ba_app client parent_id domain port) (row_tcp_ports row))
             (row_domain_names row) (emit Configuring_ba s)
      else s)"

definition configure_pra :: "'w client \<Rightarrow> string \<Rightarrow> import_row \<Rightarrow> 'w run_state \<Rightarrow> 'w run_state" where
  \<comment> \<open>lines 118-128\<close>
  "configure_pra client parent_id row s =
     (if row_is_pra row
      then fold (\<lambda>domain. fold (\<lambda>port. add_pra_app client parent_id domain port) (row_tcp_ports row))
             (row_domain_names row) (emit Configuring_pra s)
      else s)"

definition create_payload :: "import_row \<Rightarrow> string list \<Rightarrow> string \<Rightarrow> segment_payload" where
  \<comment> \<open>lines 88-96\<close>
  "create_payload row server_group_ids segment_group_id =
     \<lparr>pl_name = row_name row,
      pl_description = row_description row,
      pl_enabled = row_enabled row,
      pl_segment_group_id = Some segment_group_id,
      pl_server_group_ids = server_group_ids,
      pl_domain_names = row_domain_names row,
      pl_tcp_port_range = port_ranges (row_tcp_ports row),
      pl_udp_port_range = port_ranges (row_udp_ports row),
      pl_double_encrypt = row_double_encrypt row,
      pl_app_protection_enabled = Some (row_is_inspection row)\<rparr>"

definition provision_row ::
  "'w client \<Rightarrow> refmap \<Rightarrow> refmap \<Rightarrow> bool \<Rightarrow> string set \<Rightarrow> import_row \<Rightarrow> 'w run_state
     \<Rightarrow> py_error + 'w run_state" where
  \<comment> \<open>the body of the \<^verbatim>\<open>for row in rows\<close> loop of
      \<^verbatim>\<open>create_and_configure_segments\<close>, lines 64-128; \<^verbatim>\<open>continue\<close> ends the body\<close>
  "provision_row client server_groups_map segment_groups_map force existing_segment_names row s =
     (let name = row_name row in
      if \<not> force \<and> name \<in> existing_segment_names then Inr (emit (Skip_existing name) s)
      else
        let server_group_names = row_server_group_names row;
            segment_group_name = row_segment_group_name row;
            missing_sgs = filter (\<lambda>sg. map_of server_groups_map sg = None) server_group_names
        in
        if missing_sgs \<noteq> [] then Inr (emit (Skip_missing_server_groups name missing_sgs) s)
        else if map_of segment_groups_map segment_group_name = None
        then Inr (emit (Skip_missing_segment_group name segment_group_name) s)
        else
          let s1 = emit (Creating_parent name) s in
          case dict_index_all server_groups_map server_group_names of
            Inl e \<Rightarrow> Inl e
          | Inr server_group_ids \<Rightarrow>
          (case dict_index segment_groups_map segment_group_name of
            Inl e \<Rightarrow> Inl e
          | Inr segment_group_id \<Rightarrow>
            (let payload = create_payload row server_group_ids segment_group_id;
                 (res, w') = add_segment client payload (world s1);
                 s2 = (emit (Call_add_segment payload) s1)\<lparr>world := w'\<rparr>
             in case res of
                  Inl err \<Rightarrow> Inr (emit (Parent_failed name err) s2)
                | Inr parent_id \<Rightarrow>
                    (let s3 = emit (Parent_created name parent_id)
                                (s2\<lparr>created_count := created_count s2 + 1\<rparr>);
                         s4 = configure_ba client parent_id row s3;
                         s5 = configure_pra client parent_id row s4
                     in Inr s5))))"

definition init_state :: "'w \<Rightarrow> 'w run_state" where
  \<comment> \<open>\<^verbatim>\<open>created_count = 0; configured_apps = 0\<close>, nothing printed yet\<close>
  "init_state w = \<lparr>world = w, created_count = 0, configured_apps = 0, trace = []\<rparr>"

definition create_and_configure_segments ::
  "'w client \<Rightarrow> import_row list \<Rightarrow> refmap \<Rightarrow> refmap \<Rightarrow> bool \<Rightarrow> string set \<Rightarrow> 'w
     \<Rightarrow> py_error + 'w run_state" where
  \<comment> \<open>\<^verbatim>\<open>import_segments.create_and_configure_segments\<close>: the returned pair is
      \<open>(created_count, configured_apps)\<close> of the final state\<close>
  "create_and_configure_segments client rows server_groups_map segment_groups_map force
       existing_segment_names w =
     for_each (provision_row client server_groups_map segment_groups_map force existing_segment_names)
       rows (init_state w)"

definition fetch_existing_segment_names :: "'w client \<Rightarrow> 'w \<Rightarrow> string set \<times> 'w" where
  \<comment> \<open>\<^verbatim>\<open>import_segments.main\<close>, lines 149-155: the pre-fetched set of names,
      empty when the listing fails\<close>
  "fetch_existing_segment_names client w =
     (case list_segments client w of
        (Inl err, w') \<Rightarrow> ({}, w')
      | (Inr all_existing_segments, w') \<Rightarrow> (set (map seg_name all_existing_segments), w'))"

section \<open>The segment-maker script: attribute-keyed existence check\<close>

definition segment_exists ::
  "'w client \<Rightarrow> string \<Rightarrow> port_range list \<Rightarrow> 'w run_state \<Rightarrow> bool \<times> 'w run_state" where
  \<comment> \<open>\<^verbatim>\<open>segment_maker.segment_exists\<close>\<close>
  "segment_exists client domain ports s =
     (let (res, w') = list_segments client (world s);
          s1 = (emit Call_list_segments s)\<lparr>world := w'\<rparr>
      in case res of
           Inl err \<Rightarrow> (False, emit (List_segments_warning err) s1)
         | Inr segments \<Rightarrow>
             (list_ex (\<lambda>seg. domain \<in> set (seg_domain_names seg) \<and> seg_tcp_port_range seg = ports)
                segments, s1))"

definition create_row ::
  "'w client \<Rightarrow> bool \<Rightarrow> segment_payload \<Rightarrow> 'w run_state \<Rightarrow> py_error + 'w run_state" where
  \<comment> \<open>the loop body of \<^verbatim>\<open>segment_maker.create_app_segments\<close>, lines 132-144;
      \<^verbatim>\<open>row.get("domain_names")[0]\<close> raises \<^verbatim>\<open>IndexError\<close> on an empty list\<close>
  "create_row client force_creation row s =
     (case pl_domain_names row of
        [] \<Rightarrow> Inl IndexError
      | domain # _ \<Rightarrow>
        (let ports = pl_tcp_port_range row;
             (found, s1) = (if force_creation then (False, s) else segment_exists client domain ports s)
         in if \<not> force_creation \<and> found then Inr (emit (Skip_existing_attributes domain ports) s1)
            else
              (let (res, w') = add_segment client row (world s1);
                   s2 = (emit (Call_add_segment row) s1)\<lparr>world := w'\<rparr>
               in case res of
                    Inl err \<Rightarrow> Inr (emit (Maker_failed (pl_name row) err) s2)
                  | Inr created_segment \<Rightarrow>
                      Inr (emit (Maker_created (pl_name row))
                             (s2\<lparr>created_count := created_count s2 + 1\<rparr>)))))"

definition create_app_segments ::
  "'w client \<Rightarrow> segment_payload list \<Rightarrow> bool \<Rightarrow> 'w \<Rightarrow> py_error + 'w run_state" where
  \<comment> \<open>\<^verbatim>\<open>segment_maker.create_app_segments\<close>: returns \<open>created_count\<close> of the final state\<close>
  "create_app_segments client rows force_creation w =
     for_each (create_row client force_creation) rows (init_state w)"

section \<open>Facts about the string primitives\<close>

lemma split_ne: "split sep s \<noteq> []"
  by (induction s) (auto split: list.splits)

lemma split_Cons_nonsep: "c \<noteq> sep \<Longrightarrow> split sep (c # cs) = (c # hd (split sep cs)) # tl (split sep cs)"
  using split_ne[of sep cs] by (cases "split sep cs") auto

lemma split_no_sep: "sep \<notin> set x \<Longrightarrow> split sep x = [x]"
  by (induction x) auto

lemma split_join: "ts \<noteq> [] \<Longrightarrow> \<forall>t\<in>set ts. sep \<notin> set t \<Longrightarrow> split sep (join [sep] ts) = ts"
proof (induction "[sep]" ts rule: join.induct)
  case 1 then show ?case by simp
next
  case (2 x)
  then show ?case by (simp add: split_no_sep)
next
  case (3 x y ys)
  then have IH: "split sep (join [sep] (y # ys)) = y # ys" by simp
  from 3 have nx: "sep \<notin> set x" by simp
  have "split sep (x @ [sep] @ r) = x # split sep r" if "sep \<notin> set x" for x r
    using that split_ne[of sep r] by (induction x) (auto split: list.splits)
  with nx IH show ?case by simp
qed

lemma split_snoc_nonsep: "c \<noteq> sep \<Longrightarrow> split sep (s @ [c]) = butlast (split sep s) @ [last (split sep s) @ [c]]"
proof (induction s)
  case Nil then show ?case by simp
next
  case (Cons a s)
  then show ?case using split_ne[of sep s] split_ne[of sep "s @ [c]"]
    by (auto split: list.splits simp: butlast_append)
qed

lemma strip_snoc_space: "py_isspace c \<Longrightarrow> strip (t @ [c]) = strip t"
proof (cases "\<forall>x\<in>set t. py_isspace x")
  case True
  assume c: "py_isspace c"
  from True have a: "dropWhile py_isspace t = []" by simp
  from True c have b: "dropWhile py_isspace (t @ [c]) = []" by simp
  show ?thesis unfolding strip_def a b by simp
next
  case False
  assume c: "py_isspace c"
  from False have "dropWhile py_isspace (t @ [c]) = dropWhile py_isspace t @ [c]"
    by (auto simp: dropWhile_append)
  with c show ?thesis by (simp add: strip_def)
qed

lemma strip_Cons_space: "py_isspace c \<Longrightarrow> strip (c # t) = strip t"
  by (simp add: strip_def)

lemma map_strip_split_lstrip:
  "\<not> py_isspace sep \<Longrightarrow> map strip (split sep (dropWhile py_isspace s)) = map strip (split sep s)"
proof (induction s)
  case Nil then show ?case by simp
next
  case (Cons a s)
  show ?case
  proof (cases "py_isspace a")
    case True
    with Cons have "a \<noteq> sep" by auto
    with True Cons show ?thesis using split_ne[of sep s]
      by (auto split: list.splits simp: strip_Cons_space)
  next
    case False then show ?thesis by simp
  qed
qed

lemma map_strip_split_rstrip:
  "\<not> py_isspace sep \<Longrightarrow> map strip (split sep (rev (dropWhile py_isspace (rev s)))) = map strip (split sep s)"
proof (induction s rule: rev_induct)
  case Nil then show ?case by simp
next
  case (snoc c s)
  show ?case
  proof (cases "py_isspace c")
    case True
    with snoc have ne: "c \<noteq> sep" by auto
    obtain ys y where xs: "split sep s = ys @ [y]"
      using split_ne[of sep s] by (cases "split sep s" rule: rev_cases) auto
    then have "split sep (s @ [c]) = ys @ [y @ [c]]"
      by (simp add: split_snoc_nonsep[OF ne])
    then have "map strip (split sep (s @ [c])) = map strip ys @ [strip y]"
      by (simp add: strip_snoc_space[OF True])
    then have "map strip (split sep (s @ [c])) = map strip (split sep s)"
      by (simp add: xs)
    with True snoc show ?thesis by simp
  next
    case False then show ?thesis by simp
  qed
qed

lemma comma_not_space: "\<not> py_isspace CHR '',''"
  by (simp add: py_isspace_def py_whitespace_def)

lemma map_strip_split_strip:
  "map strip (split CHR '','' (strip s)) = map strip (split CHR '','' s)"
  by (simp add: strip_def[of s] map_strip_split_rstrip[OF comma_not_space] map_strip_split_lstrip[OF comma_not_space])

section \<open>Port parsing (claim C5)\<close>

lemma parse_ports_maker_tokens:
  "parse_ports_maker s =
     map (\<lambda>t. \<lparr>pr_from = t, pr_to = t\<rparr>) (filter (\<lambda>t. t \<noteq> []) (map strip (split CHR '','' s)))"
proof -
  have "parse_ports_maker s =
      map (\<lambda>t. \<lparr>pr_from = t, pr_to = t\<rparr>)
        (filter (\<lambda>t. t \<noteq> []) (map strip (split CHR '','' (strip s))))"
    by (simp add: parse_ports_maker_def filter_map comp_def)
  then show ?thesis by (simp only: map_strip_split_strip)
qed

lemma parse_ports_import_tokens:
  "parse_ports_import s = filter (\<lambda>t. t \<noteq> []) (map strip (split CHR '','' s))"
proof -
  have "parse_ports_import s = filter (\<lambda>t. t \<noteq> []) (map strip (split CHR '','' (strip s)))"
    by (simp add: parse_ports_import_def filter_map comp_def)
  then show ?thesis by (simp only: map_strip_split_strip)
qed

text \<open>
  Claim C5. Port parsing maps \<^verbatim>\<open>"80,443,8443"\<close> to the three single-value ranges
  \<open>{80,80}\<close>, \<open>{443,443}\<close>, \<open>{8443,8443}\<close> in that order and the empty string to the
  empty sequence, in both scripts (the import script builds the ranges from its port list
  when it assembles the payload). In general the comma-separated tokens of the input, each
  trimmed and the empty ones dropped, become one \<open>{from: t, to: t}\<close> pair each, in input
  order: the tokens are characterised independently of \<open>split\<close>, as the strings joined
  by commas.
\<close>

theorem parse_ports_spec:
  "parse_ports_maker ''80,443,8443'' =
     [\<lparr>pr_from = ''80'', pr_to = ''80''\<rparr>, \<lparr>pr_from = ''443'', pr_to = ''443''\<rparr>,
      \<lparr>pr_from = ''8443'', pr_to = ''8443''\<rparr>]
   \<and> parse_ports_maker '''' = []
   \<and> port_ranges (parse_ports_import ''80,443,8443'') =
     [\<lparr>pr_from = ''80'', pr_to = ''80''\<rparr>, \<lparr>pr_from = ''443'', pr_to = ''443''\<rparr>,
      \<lparr>pr_from = ''8443'', pr_to = ''8443''\<rparr>]
   \<and> port_ranges (parse_ports_import '''') = []
   \<and> (\<forall>ts. ts \<noteq> [] \<and> (\<forall>t\<in>set ts. CHR '','' \<notin> set t) \<longrightarrow>
         parse_ports_maker (join '','' ts) =
           map (\<lambda>t. \<lparr>pr_from = t, pr_to = t\<rparr>) (filter (\<lambda>t. t \<noteq> []) (map strip ts))
       \<and> port_ranges (parse_ports_import (join '','' ts)) =
           map (\<lambda>t. \<lparr>pr_from = t, pr_to = t\<rparr>) (filter (\<lambda>t. t \<noteq> []) (map strip ts)))"
proof -
  have a: "parse_ports_maker ''80,443,8443'' =
     [\<lparr>pr_from = ''80'', pr_to = ''80''\<rparr>, \<lparr>pr_from = ''443'', pr_to = ''443''\<rparr>,
      \<lparr>pr_from = ''8443'', pr_to = ''8443''\<rparr>]"
    by (simp add: parse_ports_maker_def strip_def py_isspace_def py_whitespace_def)
  have b: "parse_ports_maker '''' = []"
    by (simp add: parse_ports_maker_def strip_def)
  have c: "port_ranges (parse_ports_import ''80,443,8443'') =
     [\<lparr>pr_from = ''80'', pr_to = ''80''\<rparr>, \<lparr>pr_from = ''443'', pr_to = ''443''\<rparr>,
      \<lparr>pr_from = ''8443'', pr_to = ''8443''\<rparr>]"
    by (simp add: parse_ports_import_def port_ranges_def strip_def py_isspace_def py_whitespace_def)
  have d: "port_ranges (parse_ports_import '''') = []"
    by (simp add: parse_ports_import_def port_ranges_def strip_def)
  have e: "parse_ports_maker (join '','' ts) =
           map (\<lambda>t. \<lparr>pr_from = t, pr_to = t\<rparr>) (filter (\<lambda>t. t \<noteq> []) (map strip ts))
       \<and> port_ranges (parse_ports_import (join '','' ts)) =
           map (\<lambda>t. \<lparr>pr_from = t, pr_to = t\<rparr>) (filter (\<lambda>t. t \<noteq> []) (map strip ts))"
    if "ts \<noteq> []" "\<forall>t\<in>set ts. CHR '','' \<notin> set t" for ts
    using split_join[OF that]
    by (simp add: parse_ports_maker_tokens parse_ports_import_tokens port_ranges_def)
  from a b c d e show ?thesis by blast
qed

theorem parse_ports_spec_witness:
  "parse_ports_maker (join '','' ['' 22 '', '''', ''3389'']) =
     [\<lparr>pr_from = ''22'', pr_to = ''22''\<rparr>, \<lparr>pr_from = ''3389'', pr_to = ''3389''\<rparr>]
   \<and> port_ranges (parse_ports_import (join '','' ['' 22 '', '''', ''3389''])) =
     [\<lparr>pr_from = ''22'', pr_to = ''22''\<rparr>, \<lparr>pr_from = ''3389'', pr_to = ''3389''\<rparr>]"
proof -
  have h: "['' 22 '', '''', ''3389''] \<noteq> [] \<and> (\<forall>t\<in>set ['' 22 '', '''', ''3389'']. CHR '','' \<notin> set t)"
    by simp
  have s: "map strip ['' 22 '', '''', ''3389''] = [''22'', '''', ''3389'']"
    by (simp add: strip_def py_isspace_def py_whitespace_def)
  from parse_ports_spec have
    "\<forall>ts. ts \<noteq> [] \<and> (\<forall>t\<in>set ts. CHR '','' \<notin> set t) \<longrightarrow>
         parse_ports_maker (join '','' ts) =
           map (\<lambda>t. \<lparr>pr_from = t, pr_to = t\<rparr>) (filter (\<lambda>t. t \<noteq> []) (map strip ts))
       \<and> port_ranges (parse_ports_import (join '','' ts)) =
           map (\<lambda>t. \<lparr>pr_from = t, pr_to = t\<rparr>) (filter (\<lambda>t. t \<noteq> []) (map strip ts))"
    by blast
  from this[rule_format, OF h] show ?thesis unfolding s by simp
qed

end
